theory Spec2Isabelle
  imports Main "HOL-Library.Char_ord" "HOL-Library.List_Lexorder" "HOL-Library.Sublist"
    "HOL-Library.Multiset" "HOL-Library.Product_Lexorder"
begin

section \<open>Strings\<close>

text \<open>
  Python strings are modelled as \<open>string\<close>, read as the UTF-8 bytes of the text.  Substring
  search, replacement and comparison by \<open><\<close> agree on code points and on their UTF-8 bytes,
  and every character the program looks at by itself (brackets, quotes, the newline, digits of
  the sentinels) is ASCII.
\<close>

definition newline :: char where
  \<open>newline = CHR 0x0A\<close>

definition bslash :: char where
  \<open>bslash = CHR 0x5C\<close>

text \<open>\<^verbatim>\<open>pat in s\<close>.\<close>

fun str_contains :: "string \<Rightarrow> string \<Rightarrow> bool" where
  "str_contains pat [] = (pat = [])"
| "str_contains pat (c # cs) = (prefix pat (c # cs) \<or> str_contains pat cs)"

text \<open>\<^verbatim>\<open>s.replace(old, new)\<close>: every occurrence, left to right, without overlap.\<close>

fun replace_all :: "string \<Rightarrow> string \<Rightarrow> string \<Rightarrow> string" where
  "replace_all old new [] = (if old = [] then new else [])"
| "replace_all old new (c # cs) =
     (if old = [] then new @ c # replace_all old new cs
      else if prefix old (c # cs) then new @ replace_all old new (drop (length old - 1) cs)
      else c # replace_all old new cs)"

text \<open>The first occurrence of a literal replaced, the text unchanged when there is none.\<close>

fun replace_first :: "string \<Rightarrow> string \<Rightarrow> string \<Rightarrow> string" where
  "replace_first pat rep [] = (if pat = [] then rep else [])"
| "replace_first pat rep (c # cs) =
     (if prefix pat (c # cs) then rep @ drop (length pat) (c # cs)
      else c # replace_first pat rep cs)"

text \<open>\<^verbatim>\<open>s.split(sep)\<close> for a separator of one character, and \<^verbatim>\<open>sep.join(xs)\<close>.\<close>

fun split_on :: "char \<Rightarrow> string \<Rightarrow> string list" where
  "split_on sep [] = [[]]"
| "split_on sep (c # cs) =
     (if c = sep then [] # split_on sep cs
      else (case split_on sep cs of [] \<Rightarrow> [[c]] | w # ws \<Rightarrow> (c # w) # ws))"

fun join :: "string \<Rightarrow> string list \<Rightarrow> string" where
  "join sep [] = []"
| "join sep [x] = x"
| "join sep (x # y # ys) = x @ sep @ join sep (y # ys)"

text \<open>\<^verbatim>\<open>"{}".format(n)\<close> for a non-negative integer.\<close>

definition digit_char :: "nat \<Rightarrow> char" where
  "digit_char d =
     (if d = 0 then CHR ''0'' else if d = 1 then CHR ''1'' else if d = 2 then CHR ''2''
      else if d = 3 then CHR ''3'' else if d = 4 then CHR ''4'' else if d = 5 then CHR ''5''
      else if d = 6 then CHR ''6'' else if d = 7 then CHR ''7'' else if d = 8 then CHR ''8''
      else CHR ''9'')"

fun string_of_nat :: "nat \<Rightarrow> string" where
  "string_of_nat n =
     (if n < 10 then [digit_char n] else string_of_nat (n div 10) @ [digit_char (n mod 10)])"

definition is_digit :: "char \<Rightarrow> bool" where
  "is_digit c = (c \<in> set ''0123456789'')"

text \<open>\<^verbatim>\<open>s.isdigit()\<close>: at least one character, all of them digits (ASCII digits here).\<close>

definition str_isdigit :: "string \<Rightarrow> bool" where
  "str_isdigit s = (s \<noteq> [] \<and> list_all is_digit s)"

section \<open>The regular expressions of the program\<close>

text \<open>
  A pattern is a matcher in continuation style: it reads a prefix of its input and hands the
  rest to the continuation, and where the continuation fails it backtracks, the longest
  repetition first, as Python's \<^verbatim>\<open>re\<close> does.
\<close>

definition lit :: "string \<Rightarrow> (string \<Rightarrow> 'a option) \<Rightarrow> string \<Rightarrow> 'a option" where
  "lit p k s = (if prefix p s then k (drop (length p) s) else None)"

text \<open>\<^verbatim>\<open>(C*)\<close> for a character class \<open>C\<close>, greedy; the continuation gets the group.\<close>

fun star :: "(char \<Rightarrow> bool) \<Rightarrow> (string \<Rightarrow> string \<Rightarrow> 'a option) \<Rightarrow> string \<Rightarrow> string \<Rightarrow> 'a option" where
  "star C k acc [] = k acc []"
| "star C k acc (c # cs) =
     (if C c then (case star C k (acc @ [c]) cs of Some r \<Rightarrow> Some r | None \<Rightarrow> k acc (c # cs))
      else k acc (c # cs))"

text \<open>\<^verbatim>\<open>(C+)\<close>.\<close>

definition plus :: "(char \<Rightarrow> bool) \<Rightarrow> (string \<Rightarrow> string \<Rightarrow> 'a option) \<Rightarrow> string \<Rightarrow> 'a option" where
  "plus C k s = (case s of [] \<Rightarrow> None | c # cs \<Rightarrow> if C c then star C k [c] cs else None)"

text \<open>The class \<^verbatim>\<open>.\<close>: every character but the newline.\<close>

definition dot :: "char \<Rightarrow> bool" where
  "dot c = (c \<noteq> newline)"

text \<open>\<^verbatim>\<open>re.search\<close>: the leftmost position where the pattern matches, with the text before it.\<close>

fun search_from :: "(string \<Rightarrow> 'a option) \<Rightarrow> string \<Rightarrow> string \<Rightarrow> (string \<times> 'a) option" where
  "search_from m pre [] = map_option (Pair pre) (m [])"
| "search_from m pre (c # cs) =
     (case m (c # cs) of Some r \<Rightarrow> Some (pre, r) | None \<Rightarrow> search_from m (pre @ [c]) cs)"

definition search :: "(string \<Rightarrow> 'a option) \<Rightarrow> string \<Rightarrow> 'a option" where
  "search m s = map_option snd (search_from m [] s)"

text \<open>\<^verbatim>\<open>re.search(r"definition\">(.*)<", line)\<close>, group 1.\<close>

definition definition_match :: "string \<Rightarrow> string option" where
  \<open>definition_match =
     search (lit ''definition">'' (star dot (\<lambda>g. lit ''<'' (\<lambda>_. Some g)) []))\<close>

text \<open>
  \<^verbatim>\<open>re.search(r"definition_(.+)\">TRANSLATE(?:: (.*))?<", line)\<close>, groups 1 and 2; group 2 is
  \<open>None\<close> when the optional part did not take part in the match.
\<close>

definition definition_translation_match :: "string \<Rightarrow> (string \<times> string option) option" where
  \<open>definition_translation_match =
     search (lit ''definition_'' (plus dot (\<lambda>g1. lit ''">TRANSLATE'' (\<lambda>r.
       (case lit '': '' (star dot (\<lambda>g2. lit ''<'' (\<lambda>_. Some (g1, Some g2))) []) r of
          Some m \<Rightarrow> Some m
        | None \<Rightarrow> lit ''<'' (\<lambda>_. Some (g1, None)) r)))))\<close>

text \<open>\<^verbatim>\<open>re.search(r"part_of_speech\">(.*):(.*)<", line)\<close>, groups 1 and 2.\<close>

definition pos_match :: "string \<Rightarrow> (string \<times> string) option" where
  \<open>pos_match =
     search (lit ''part_of_speech">'' (star dot (\<lambda>g1. lit '':''
       (star dot (\<lambda>g2. lit ''<'' (\<lambda>_. Some (g1, g2))) [])) []))\<close>

text \<open>\<^verbatim>\<open>re.search(r"\"notes\">(.*)", line)\<close> and \<^verbatim>\<open>re.search(r"(.*)", line)\<close>, group 1.\<close>

definition notes_start_match :: "string \<Rightarrow> string option" where
  \<open>notes_start_match = search (lit ''"notes">'' (star dot (\<lambda>g _. Some g) []))\<close>

definition notes_continue_match :: "string \<Rightarrow> string option" where
  "notes_continue_match = search (star dot (\<lambda>g _. Some g) [])"

text \<open>\<^verbatim>\<open>re.search(r"notes_(.+)\">TRANSLATE<", line)\<close>, group 1.\<close>

definition notes_translation_match :: "string \<Rightarrow> string option" where
  \<open>notes_translation_match =
     search (lit ''notes_'' (plus dot (\<lambda>g. lit ''">TRANSLATE<'' (\<lambda>_. Some g))))\<close>

text \<open>
  The pattern \<^verbatim>\<open>>(.*)<\<close> of the rewriting \<^verbatim>\<open>re.sub(r">(.*)<", repl, line)\<close>; a match gives its
  group and the text after it.
\<close>

definition field_re :: "string \<Rightarrow> (string \<times> string) option" where
  "field_re = lit ''>'' (star dot (\<lambda>g. lit ''<'' (\<lambda>rest. Some (g, rest))) [])"

text \<open>
  \<^verbatim>\<open>re.sub\<close> with this pattern and an expanded replacement: every match, left to right, the
  search going on behind each match.  A match of this pattern is never empty, so the text
  behind it is shorter; the test on the lengths only makes that visible to the definition.
\<close>

fun re_sub_field :: "string \<Rightarrow> string \<Rightarrow> string" where
  "re_sub_field repl s =
     (case search_from field_re [] s of
        None \<Rightarrow> s
      | Some (pre, g, rest) \<Rightarrow>
          pre @ repl @ (if length rest < length s then re_sub_field repl rest else rest))"

text \<open>
  The replacement argument of \<^verbatim>\<open>re.sub\<close> is a template in which a backslash starts an escape
  or a group reference.  Templates without a backslash stand for themselves; the others are
  outside this model (\<open>None\<close>).
\<close>

definition expand_template :: "string \<Rightarrow> string option" where
  "expand_template t = (if bslash \<in> set t then None else Some t)"

definition re_sub_field_template :: "string \<Rightarrow> string \<Rightarrow> string option" where
  "re_sub_field_template t line = map_option (\<lambda>r. re_sub_field r line) (expand_template t)"

text \<open>
  \<^verbatim>\<open>re.findall(r"({[^{}]*}|\[[^\[\]]*\])", notes)\<close>: the protected spans, left to right, the
  scan going on behind each one.
\<close>

definition span_re :: "char \<Rightarrow> char \<Rightarrow> string \<Rightarrow> (string \<times> string) option" where
  "span_re opn cls =
     lit [opn] (star (\<lambda>c. c \<noteq> opn \<and> c \<noteq> cls)
       (\<lambda>g. lit [cls] (\<lambda>rest. Some ([opn] @ g @ [cls], rest))) [])"

definition link_re :: "string \<Rightarrow> (string \<times> string) option" where
  "link_re s =
     (case span_re CHR ''{'' CHR ''}'' s of
        Some m \<Rightarrow> Some m
      | None \<Rightarrow> span_re CHR ''['' CHR '']'' s)"

fun find_links :: "string \<Rightarrow> string list" where
  "find_links s =
     (case search_from link_re [] s of
        None \<Rightarrow> []
      | Some (pre, m, rest) \<Rightarrow>
          m # (if length rest < length s then find_links rest else []))"

text \<open>
  A pattern built at run time is compiled by \<^verbatim>\<open>re\<close>.  \<open>re_literal\<close> is the compiler on the
  patterns that denote one literal text: ordinary characters, \<^verbatim>\<open>]\<close> and \<^verbatim>\<open>}\<close>, the escapes
  \<^verbatim>\<open>\[\<close> and \<^verbatim>\<open>\]\<close>, and a \<^verbatim>\<open>{\<close> that does not open a repetition count.  On every other
  pattern (an operator, a group, a character set, another escape, a repetition count) the
  result is \<open>None\<close>: \<^verbatim>\<open>re\<close> raises there or matches other texts than the pattern's own, and
  this model does not follow it.
\<close>

definition repeat_spec :: "string \<Rightarrow> bool" where
  "repeat_spec cs =
     (let r1 = dropWhile is_digit cs;
          r2 = (case r1 of [] \<Rightarrow> r1 | c # t \<Rightarrow> if c = CHR '','' then dropWhile is_digit t else r1)
      in \<not> prefix ''}'' cs \<and> prefix ''}'' r2)"

fun re_literal :: "string \<Rightarrow> string option" where
  "re_literal [] = Some []"
| "re_literal (c # cs) =
     (if c = bslash then
        (case cs of
           [] \<Rightarrow> None
         | d # ds \<Rightarrow>
             if d = CHR ''['' \<or> d = CHR '']'' then map_option ((#) d) (re_literal ds) else None)
      else if c = CHR ''{'' then
        (if repeat_spec cs then None else map_option ((#) c) (re_literal cs))
      else if c \<in> set ''.^$*+?()[|'' then None
      else map_option ((#) c) (re_literal cs))"

text \<open>\<^verbatim>\<open>re.sub(pattern, repl, text, 1)\<close> for such a pattern.\<close>

definition re_sub_once :: "string \<Rightarrow> string \<Rightarrow> string \<Rightarrow> string option" where
  "re_sub_once pat repl s =
     (case re_literal pat of
        None \<Rightarrow> None
      | Some p \<Rightarrow> map_option (\<lambda>r. replace_first p r s) (expand_template repl))"

section \<open>The bracket validator\<close>

text \<open>
  \<^verbatim>\<open>balanced_brackets\<close>.  The stack holds the closers still expected, the top first;
  \<^verbatim>\<open>stack.pop()\<close> takes the top also when the comparison with it fails.
\<close>

definition bracket_pairs :: "(char \<times> char) list" where
  "bracket_pairs = zip ''{[('' ''}])''"

definition BRACKETS :: "char \<rightharpoonup> char" where
  "BRACKETS = map_of bracket_pairs"

fun balanced_from :: "string \<Rightarrow> string \<Rightarrow> bool" where
  "balanced_from stack [] = (stack = [])"
| "balanced_from stack (c # cs) =
     (case BRACKETS c of
        Some closer \<Rightarrow> balanced_from (closer # stack) cs
      | None \<Rightarrow>
          if c \<notin> set (map snd bracket_pairs) then balanced_from stack cs
          else (case stack of
                  [] \<Rightarrow> False
                | expected # stack' \<Rightarrow>
                    if c = expected then balanced_from stack' cs else False))"

definition balanced_brackets :: "string \<Rightarrow> bool" where
  "balanced_brackets line = balanced_from [] line"

section \<open>The attribute order\<close>

definition important_attrs :: "string list" where
  "important_attrs =
     [''ambi'', ''i'', ''i_c'', ''is'', ''t'', ''t_c'', ''pref'', ''suff'', ''name'', ''num'',
      ''pro'', ''body'', ''being'', ''place'', ''inhpl'', ''inhps'', ''plural'', ''eu'',
      ''idiom'', ''mv'', ''nt'', ''phr'', ''prov'', ''Ql'', ''rej'', ''rp'', ''sp'', ''toast'',
      ''lyr'', ''bc'', ''epithet'']"

definition compare_attrs :: "string \<Rightarrow> string \<Rightarrow> int" where
  "compare_attrs x y =
     (if str_isdigit x then - 1
      else if str_isdigit y then 1
      else
        (let x_is_important = x \<in> set important_attrs;
             y_is_important = y \<in> set important_attrs
         in if x_is_important \<and> \<not> y_is_important then - 1
            else if \<not> x_is_important \<and> y_is_important then 1
            else if x < y then - 1
            else 1))"

text \<open>
  \<^verbatim>\<open>functools.cmp_to_key(compare_attrs)\<close>: the sort compares two keys by \<^verbatim>\<open><\<close> only, which is
  \<^verbatim>\<open>compare_attrs(x, y) < 0\<close>.
\<close>

definition attr_lt :: "string \<Rightarrow> string \<Rightarrow> bool" where
  "attr_lt x y = (compare_attrs x y < 0)"

text \<open>
  \<^verbatim>\<open>sorted\<close> is CPython's \<^verbatim>\<open>list.sort\<close> on a copy.  On a list of fewer than 64 elements it
  takes the run the list starts with (reversed when it descends strictly) and inserts the
  remaining elements one by one, each at the place a binary search finds.  Longer lists are
  cut into runs that are merged; they are outside this model (\<open>None\<close>).
\<close>

fun run_len :: "bool \<Rightarrow> ('a \<Rightarrow> 'a \<Rightarrow> bool) \<Rightarrow> 'a \<Rightarrow> 'a list \<Rightarrow> nat" where
  "run_len desc lt prev [] = 0"
| "run_len desc lt prev (y # ys) =
     (if lt y prev = desc then Suc (run_len desc lt y ys) else 0)"

function bsearch :: "('a \<Rightarrow> 'a \<Rightarrow> bool) \<Rightarrow> 'a \<Rightarrow> 'a list \<Rightarrow> nat \<Rightarrow> nat \<Rightarrow> nat" where
  "bsearch lt pivot a l r =
     (if l < r then
        (let p = l + (r - l) div 2
         in if lt pivot (a ! p) then bsearch lt pivot a l p else bsearch lt pivot a (Suc p) r)
      else l)"
  by pat_completeness auto
termination
  by (relation "measure (\<lambda>(lt, pivot, a, l, r). r - l)") auto

definition binsert :: "('a \<Rightarrow> 'a \<Rightarrow> bool) \<Rightarrow> 'a \<Rightarrow> 'a list \<Rightarrow> 'a list" where
  "binsert lt pivot a =
     (let l = bsearch lt pivot a 0 (length a) in take l a @ pivot # drop l a)"

fun binarysort :: "('a \<Rightarrow> 'a \<Rightarrow> bool) \<Rightarrow> 'a list \<Rightarrow> 'a list \<Rightarrow> 'a list" where
  "binarysort lt a [] = a"
| "binarysort lt a (pivot # rest) = binarysort lt (binsert lt pivot a) rest"

definition list_sort :: "('a \<Rightarrow> 'a \<Rightarrow> bool) \<Rightarrow> 'a list \<Rightarrow> 'a list" where
  "list_sort lt xs =
     (case xs of
        [] \<Rightarrow> []
      | x0 # tl0 \<Rightarrow>
          (case tl0 of
             [] \<Rightarrow> [x0]
           | x1 # _ \<Rightarrow>
               (let descending = lt x1 x0;
                    n = Suc (run_len descending lt x0 tl0);
                    run = take n xs
                in binarysort lt (if descending then rev run else run) (drop n xs))))"

definition py_sorted :: "('a \<Rightarrow> 'a \<Rightarrow> bool) \<Rightarrow> 'a list \<Rightarrow> 'a list option" where
  "py_sorted lt xs = (if length xs < 64 then Some (list_sort lt xs) else None)"

section \<open>The translation provider\<close>

text \<open>
  The provider is outside the program: a call either raises (\<open>Fault\<close>) or returns a text.
  Its answer may depend on the number of calls made before, so that it need not answer the
  same request twice in the same way.
\<close>

datatype reply = Fault | Reply string

type_synonym provider = "nat \<Rightarrow> string \<Rightarrow> string \<Rightarrow> reply"

definition supported_languages_map :: "string \<rightharpoonup> string" where
  "supported_languages_map =
     map_of [(''de'', ''de''), (''fa'', ''fa''), (''sv'', ''sv''), (''ru'', ''ru''),
             (''zh-HK'', ''zh-TW''), (''pt'', ''pt''), (''fi'', ''fi''), (''fr'', ''fr'')]"

text \<open>\<^verbatim>\<open>supported_languages_map.get(group.replace('_', '-'), "")\<close>.\<close>

definition resolve_language :: "string \<Rightarrow> string" where
  "resolve_language g =
     (case supported_languages_map (replace_all ''_'' ''-'' g) of None \<Rightarrow> [] | Some l \<Rightarrow> l)"

section \<open>The state of a run\<close>

text \<open>
  The variables of the main loop (\<^verbatim>\<open>definition\<close> and \<^verbatim>\<open>notes\<close> are \<open>definition_text\<close> and
  \<open>notes_text\<close> here), the text printed into the file being rewritten (\<open>printed\<close>, one
  entry for each \<^verbatim>\<open>print\<close>), and the requests sent to the provider (\<open>calls\<close>: the text and
  the target language).
\<close>

record state =
  num_errors :: nat
  multiline_notes :: string
  definition_text :: string
  notes_text :: string
  link_matches :: "string list"
  in_comment :: bool
  printed :: "string list"
  calls :: "(string \<times> string) list"

text \<open>\<^verbatim>\<open>translate\<close>: the empty text stands for a call that raised.\<close>

definition translate :: "provider \<Rightarrow> state \<Rightarrow> string \<Rightarrow> string \<Rightarrow> string \<times> state" where
  "translate prov st text target_lang =
     ((case prov (length (calls st)) text target_lang of Fault \<Rightarrow> [] | Reply t \<Rightarrow> t),
      st\<lparr>calls := calls st @ [(text, target_lang)]\<rparr>)"

definition print_line :: "string \<Rightarrow> state \<Rightarrow> state" where
  "print_line text st = st\<lparr>printed := printed st @ [text @ [newline]]\<rparr>"

section \<open>The token shield\<close>

definition sentinel :: "nat \<Rightarrow> string" where
  "sentinel link_number = ''DONOTTRANSLATE'' @ string_of_nat link_number"

text \<open>\<^verbatim>\<open>link_match.replace("[", r"\[").replace("]", r"\]")\<close>.\<close>

definition escape_brackets :: "string \<Rightarrow> string" where
  "escape_brackets link_match =
     replace_all '']'' [bslash, CHR '']''] (replace_all ''['' [bslash, CHR ''[''] link_match)"

text \<open>The loop that replaces the links by sentinels, from \<open>link_number\<close> on.\<close>

fun shield :: "string list \<Rightarrow> nat \<Rightarrow> string \<Rightarrow> string option" where
  "shield [] link_number text = Some text"
| "shield (link_match # rest) link_number text =
     (case re_sub_once (escape_brackets link_match) (sentinel link_number) text of
        None \<Rightarrow> None
      | Some text' \<Rightarrow> shield rest (link_number + 1) text')"

text \<open>
  The loop that restores the links in the translation; it gives the text, the missing links
  and the state with the errors it printed and counted.
\<close>

fun restore :: "string list \<Rightarrow> nat \<Rightarrow> string \<Rightarrow> string \<Rightarrow> state \<Rightarrow> (string \<times> string \<times> state) option" where
  "restore [] link_number translation_text missing_links st =
     Some (translation_text, missing_links, st)"
| "restore (link_match # rest) link_number translation_text missing_links st =
     (case re_sub_once (sentinel link_number) link_match translation_text of
        None \<Rightarrow> None
      | Some text' \<Rightarrow>
          if text' = translation_text then
            restore rest (link_number + 1) text' (missing_links @ link_match)
              ((print_line (''<!-- ERROR: Missing link #'' @ string_of_nat link_number @ ''. -->'') st)
                 \<lparr>num_errors := num_errors st + 1\<rparr>)
          else restore rest (link_number + 1) text' missing_links st)"

section \<open>The main loop\<close>

text \<open>
  The body of the loop over the lines is cut into the steps the source separates by its
  comments.  A step that calls \<^verbatim>\<open>re.sub\<close> with a pattern or a template made from the data
  gives \<open>None\<close> where that call is outside the model.
\<close>

text \<open>Lines 142 to 147: the source text of the definition.\<close>

definition capture_definition :: "state \<Rightarrow> string \<Rightarrow> state" where
  "capture_definition st line =
     (case definition_match line of
        None \<Rightarrow> st
      | Some g \<Rightarrow>
          (let st1 = st\<lparr>definition_text := g\<rparr>
           in if g = [] then
                (print_line ''<!-- ERROR: Missing definition. -->'' st1)
                  \<lparr>num_errors := num_errors st1 + 1\<rparr>
              else st1))"

text \<open>Lines 154 and 155: an override like \<^verbatim>\<open>TRANSLATE: rocket launcher\<close> becomes the definition.\<close>

definition apply_override :: "state \<Rightarrow> string option \<Rightarrow> state" where
  "apply_override st g2 =
     (case g2 of
        None \<Rightarrow> st
      | Some override \<Rightarrow> if override \<noteq> [] then st\<lparr>definition_text := override\<rparr> else st)"

text \<open>Lines 149 to 168: a definition to translate.\<close>

definition translate_definition :: "provider \<Rightarrow> state \<Rightarrow> string \<Rightarrow> (state \<times> string) option" where
  "translate_definition prov st line =
     (case definition_translation_match line of
        None \<Rightarrow> Some (st, line)
      | Some (g1, g2) \<Rightarrow>
          if definition_text st = [] then Some (st, line)
          else
            (let language = resolve_language g1
             in if language = [] then Some (st, line)
                else
                  (let st1 = apply_override st g2;
                       d = definition_text st1
                   in if prefix ''{'' d \<and> suffix ''}'' d then
                        map_option (Pair st1) (re_sub_field_template (''>'' @ d @ ''<'') line)
                      else
                        (case translate prov st1 d language of
                           (translation_text, st2) \<Rightarrow>
                             if translation_text \<noteq> [] then
                               map_option (Pair st2)
                                 (re_sub_field_template
                                    (''>'' @ translation_text @ '' [AUTOTRANSLATED]<'') line)
                             else
                               map_option (Pair st2)
                                 (re_sub_field_template ''>TRANSLATE<'' line)))))"

text \<open>Lines 171 to 176: the attributes of a part of speech, sorted.\<close>

definition sort_attributes :: "string \<Rightarrow> string option" where
  "sort_attributes line =
     (case pos_match line of
        None \<Rightarrow> Some line
      | Some (pos, g2) \<Rightarrow>
          (case py_sorted attr_lt (split_on CHR '','' g2) of
             None \<Rightarrow> None
           | Some attrs \<Rightarrow>
               re_sub_field_template (''>'' @ pos @ '':'' @ join '','' attrs @ ''<'') line))"

text \<open>Lines 179 to 205: the source text of the notes, gathered over the lines and shielded.\<close>

definition column_end :: string where
  "column_end = ''</column>''"

definition notes_match :: "state \<Rightarrow> string \<Rightarrow> string option" where
  "notes_match st line =
     (if multiline_notes st = [] then notes_start_match line else notes_continue_match line)"

definition gather_notes :: "state \<Rightarrow> string \<Rightarrow> state" where
  "gather_notes st g =
     (if g = column_end then st\<lparr>notes_text := []\<rparr>
      else if \<not> suffix column_end g then
        st\<lparr>notes_text := [], multiline_notes := multiline_notes st @ g @ [newline]\<rparr>
      else
        st\<lparr>notes_text := multiline_notes st @ take (length g - length column_end) g,
           multiline_notes := []\<rparr>)"

definition capture_notes :: "state \<Rightarrow> string \<Rightarrow> state option" where
  "capture_notes st line =
     (case notes_match st line of
        None \<Rightarrow> Some st
      | Some g \<Rightarrow>
          (let st1 = gather_notes st g;
               links = find_links (notes_text st1)
           in map_option (\<lambda>shielded. st1\<lparr>notes_text := shielded, link_matches := links\<rparr>)
                (shield links 1 (notes_text st1))))"

text \<open>Lines 207 to 233: notes to translate.\<close>

definition klingon_hk :: string where
  "klingon_hk = [CHR 0xE5, CHR 0x85, CHR 0x8B, CHR 0xE6, CHR 0x9E, CHR 0x97, CHR 0xE8, CHR 0xB2, CHR 0xA2]"

definition klingon_tw :: string where
  "klingon_tw = [CHR 0xE5, CHR 0x85, CHR 0x8B, CHR 0xE6, CHR 0x9E, CHR 0x97, CHR 0xE5, CHR 0xB4, CHR 0x97]"

definition translate_notes :: "provider \<Rightarrow> state \<Rightarrow> string \<Rightarrow> (state \<times> string) option" where
  "translate_notes prov st line =
     (case notes_translation_match line of
        None \<Rightarrow> Some (st, line)
      | Some g \<Rightarrow>
          if notes_text st = [] then Some (st, line)
          else
            (let language = resolve_language g
             in if language = [] then Some (st, line)
                else
                  (case translate prov st (notes_text st) language of
                     (translation_text, st1) \<Rightarrow>
                       if translation_text = [] then Some (st1, line)
                       else
                         (case restore (link_matches st1) 1 translation_text [] st1 of
                            None \<Rightarrow> None
                          | Some (restored, missing_links, st2) \<Rightarrow>
                              (let fixed = (if language = ''zh-TW''
                                            then replace_all klingon_hk klingon_tw restored
                                            else restored)
                               in map_option (Pair st2)
                                    (re_sub_field_template
                                       (''>'' @ fixed @ missing_links @ '' [AUTOTRANSLATED]<'')
                                       line))))))"

text \<open>Lines 236 and 237: the check of the brackets of the line as it is now.\<close>

definition check_brackets :: "state \<Rightarrow> string \<Rightarrow> state" where
  "check_brackets st line =
     (if \<not> balanced_brackets line then print_line ''<!-- ERROR: Mismatched brackets. -->'' st
      else st)"

text \<open>Lines 137 to 237: what is done with a line outside a comment.\<close>

definition process_fields :: "provider \<Rightarrow> state \<Rightarrow> string \<Rightarrow> (state \<times> string) option" where
  "process_fields prov st line =
     (case translate_definition prov (capture_definition st line) line of
        None \<Rightarrow> None
      | Some (st2, line2) \<Rightarrow>
          (case sort_attributes line2 of
             None \<Rightarrow> None
           | Some line3 \<Rightarrow>
               (case capture_notes st2 line3 of
                  None \<Rightarrow> None
                | Some st4 \<Rightarrow>
                    (case translate_notes prov st4 line3 of
                       None \<Rightarrow> None
                     | Some (st5, line5) \<Rightarrow> Some (check_brackets st5 line5, line5)))))"

text \<open>Lines 131 to 244: one line of the file.\<close>

definition process_line :: "provider \<Rightarrow> state \<Rightarrow> string \<Rightarrow> state option" where
  "process_line prov st line =
     (let st0 = (if str_contains ''<!-- '' line then st\<lparr>in_comment := True\<rparr> else st)
      in case (if \<not> in_comment st0 then process_fields prov st0 line else Some (st0, line)) of
           None \<Rightarrow> None
         | Some (st6, line6) \<Rightarrow>
             (let st7 = (if str_contains '' -->'' line6 then st6\<lparr>in_comment := False\<rparr> else st6)
              in Some (st7\<lparr>printed := printed st7 @ [line6]\<rparr>)))"

fun process_lines :: "provider \<Rightarrow> state \<Rightarrow> string list \<Rightarrow> state option" where
  "process_lines prov st [] = Some st"
| "process_lines prov st (line # rest) =
     (case process_line prov st line of
        None \<Rightarrow> None
      | Some st' \<Rightarrow> process_lines prov st' rest)"

text \<open>
  Lines 123 to 130: a file is a list of lines, each with its newline; \<open>printed\<close> starts empty
  and is the new content of the file at the end.
\<close>

definition process_file :: "provider \<Rightarrow> state \<Rightarrow> string list \<Rightarrow> state option" where
  "process_file prov st file =
     process_lines prov
       (st\<lparr>definition_text := [], notes_text := [], in_comment := False, printed := []\<rparr>) file"

fun process_files :: "provider \<Rightarrow> state \<Rightarrow> string list list \<Rightarrow> (string list list \<times> state) option" where
  "process_files prov st [] = Some ([], st)"
| "process_files prov st (file # rest) =
     (case process_file prov st file of
        None \<Rightarrow> None
      | Some st' \<Rightarrow>
          (case process_files prov st' rest of
             None \<Rightarrow> None
           | Some (outs, st'') \<Rightarrow> Some (printed st' # outs, st'')))"

text \<open>Lines 121 and 122, and the run over the files in their order.\<close>

definition initial_state :: state where
  "initial_state =
     \<lparr>num_errors = 0, multiline_notes = [], definition_text = [], notes_text = [],
      link_matches = [], in_comment = False, printed = [], calls = []\<rparr>"

definition run :: "provider \<Rightarrow> string list list \<Rightarrow> (string list list \<times> state) option" where
  "run prov files = process_files prov initial_state files"

section \<open>Texts with protected spans\<close>










text \<open>
  A span whose pattern and template the model covers: the pattern made from it denotes the
  span itself, and the span has no backslash.
\<close>

definition literal_link :: "string \<Rightarrow> bool" where
  "literal_link l = (re_literal (escape_brackets l) = Some l \<and> bslash \<notin> set l)"

section \<open>The canonical order of attributes\<close>



section \<open>Evaluation\<close>

text \<open>
  The equations of the functions that recurse on a computed argument are used by hand; the
  facts below unfold the model on a concrete input.
\<close>

declare re_sub_field.simps [simp del]

declare find_links.simps [simp del]

declare string_of_nat.simps [simp del]

declare bsearch.simps [simp del]

lemmas regex_defs = definition_match_def definition_translation_match_def pos_match_def
  notes_start_match_def notes_continue_match_def notes_translation_match_def field_re_def
  link_re_def span_re_def search_def lit_def plus_def dot_def newline_def bslash_def

lemmas step_defs = run_def process_file_def process_line_def process_fields_def
  capture_definition_def apply_override_def translate_definition_def sort_attributes_def
  capture_notes_def notes_match_def gather_notes_def translate_notes_def check_brackets_def
  initial_state_def print_line_def translate_def column_end_def balanced_brackets_def
  BRACKETS_def bracket_pairs_def re_sub_field_template_def expand_template_def re_sub_once_def
  resolve_language_def supported_languages_map_def sentinel_def escape_brackets_def
  suffix_to_prefix Let_def digit_char_def is_digit_def repeat_spec_def str_isdigit_def

lemmas eval_simps = re_sub_field.simps find_links.simps string_of_nat.simps bsearch.simps

section \<open>Multiline notes\<close>

text \<open>
  C8.  A notes field spread over three lines: the first line carries \<^verbatim>\<open>part one\<close> and no
  terminator, the second is \<^verbatim>\<open>part two\<close>, the third is \<^verbatim>\<open>part three\<close> followed by the
  terminator.  After the three lines the notes value is the three parts joined by newlines,
  without the terminator, and the buffer is empty again, whatever the provider.
\<close>

theorem multiline_accumulation:
  \<open>map_option (\<lambda>(outs, st). (notes_text st, multiline_notes st))
     (run prov [[''<column name="notes">part one'' @ [newline],
                 ''part two'' @ [newline],
                 ''part three</column>'' @ [newline]]])
   = Some (''part one'' @ [newline] @ ''part two'' @ [newline] @ ''part three'', [])\<close>
  by (simp add: step_defs regex_defs eval_simps)

section \<open>Unbalanced brackets\<close>

lemma check_brackets_num_errors:
  "num_errors (check_brackets st line) = num_errors st"
  by (simp add: check_brackets_def print_line_def)

text \<open>
  C3.  A file of two lines, the first with an opening brace that is never closed.  The run
  prints the annotation before that line and goes on to the second line, and the error
  counter is still 0 at the end: the bracket check prints, it does not count.
\<close>

theorem unbalanced_line_not_counted:
  \<open>map_option (\<lambda>(outs, st). (outs, num_errors st))
     (run prov [[''{'' @ [newline], ''x'' @ [newline]]])
   = Some ([[''<!-- ERROR: Mismatched brackets. -->'' @ [newline],
             ''{'' @ [newline], ''x'' @ [newline]]], 0)\<close>
  by (simp add: step_defs regex_defs eval_simps)

section \<open>Rewriting the field of a line\<close>

lemma search_from_skip:
  "(\<And>x xs. x \<in> set a \<Longrightarrow> m (x # xs) = None) \<Longrightarrow> s \<noteq> [] \<Longrightarrow>
   search_from m pre (a @ s) = search_from m (pre @ a) s"
  by (induction a arbitrary: pre) auto


lemma star_upto_fail:
  "CHR ''<'' \<notin> set c \<Longrightarrow> star C (\<lambda>g. lit ''<'' (k g)) acc c = None"
  by (induction c arbitrary: acc) (auto simp: lit_def)

lemma star_upto_last:
  "\<forall>x\<in>set b. C x \<Longrightarrow> C CHR ''<'' \<Longrightarrow> CHR ''<'' \<notin> set c \<Longrightarrow> (\<And>g. k g c \<noteq> None) \<Longrightarrow>
   star C (\<lambda>g. lit ''<'' (k g)) acc (b @ CHR ''<'' # c) = k (acc @ b) c"
proof (induction b arbitrary: acc)
  case Nil
  then show ?case by (simp add: star_upto_fail) (simp add: lit_def)
next
  case (Cons x b)
  have "star C (\<lambda>g. lit ''<'' (k g)) (acc @ [x]) (b @ CHR ''<'' # c) = k ((acc @ [x]) @ b) c"
    using Cons.prems by (intro Cons.IH) auto
  moreover obtain r where "k ((acc @ [x]) @ b) c = Some r"
    using Cons.prems(4) by fastforce
  ultimately show ?case using Cons.prems(1) by simp
qed

lemma field_re_head: "x \<noteq> CHR ''>'' \<Longrightarrow> field_re (x # xs) = None"
  by (simp add: field_re_def lit_def)

lemma field_re_no_lt: "CHR ''<'' \<notin> set s \<Longrightarrow> field_re s = None"
  by (cases s) (auto simp: field_re_def lit_def star_upto_fail)

lemma re_sub_field_none: "CHR ''<'' \<notin> set c \<Longrightarrow> re_sub_field r c = c"
proof -
  assume a: "CHR ''<'' \<notin> set c"
  have "search_from field_re pre c = None" for pre
    using a by (induction c arbitrary: pre) (auto simp: field_re_no_lt)
  then show ?thesis by (subst re_sub_field.simps) simp
qed

lemma field_re_shape:
  assumes "newline \<notin> set b" "CHR ''<'' \<notin> set c"
  shows "field_re (''>'' @ b @ ''<'' @ c) = Some (b, c)"
proof -
  have "star dot (\<lambda>g. lit ''<'' (\<lambda>rest. Some (g, rest))) [] (b @ CHR ''<'' # c) = Some ([] @ b, c)"
    using assms by (intro star_upto_last) (auto simp: dot_def newline_def)
  then show ?thesis by (simp add: field_re_def lit_def)
qed

lemma re_sub_field_shape:
  assumes "CHR ''>'' \<notin> set a" "newline \<notin> set b" "CHR ''<'' \<notin> set c"
  shows "re_sub_field r (a @ ''>'' @ b @ ''<'' @ c) = a @ r @ c"
proof -
  have "search_from field_re [] (a @ (''>'' @ b @ ''<'' @ c)) = search_from field_re ([] @ a) (''>'' @ b @ ''<'' @ c)"
    using assms(1) by (intro search_from_skip) (auto intro!: field_re_head)
  then have "search_from field_re [] (a @ ''>'' @ b @ ''<'' @ c) = Some (a, b, c)"
    using field_re_shape[OF assms(2,3)] by simp
  then show ?thesis
    by (subst re_sub_field.simps) (simp add: re_sub_field_none[OF assms(3)])
qed

section \<open>What each step leaves alone\<close>

lemma translate_frame:
  "translate prov st text lang = (t, st') \<Longrightarrow>
   st' = st\<lparr>calls := calls st @ [(text, lang)]\<rparr>"
  by (auto simp: translate_def)




lemma check_brackets_frame:
  "check_brackets st line = st\<lparr>printed := printed (check_brackets st line)\<rparr>"
  by (simp add: check_brackets_def print_line_def)






section \<open>The definition from line to line\<close>




section \<open>A provider that fails\<close>



text \<open>The same failure on a notes directive leaves the line, which holds the marker, as it is.\<close>

lemma translate_notes_provider_failure:
  assumes "prov (length (calls st)) (notes_text st) lang = Fault \<or>
           prov (length (calls st)) (notes_text st) lang = Reply []"
    and "notes_translation_match line = Some g" and "resolve_language g = lang"
  shows "\<exists>st'. translate_notes prov st line = Some (st', line) \<and> num_errors st' = num_errors st"
  using assms by (auto simp: translate_notes_def translate_def Let_def)

section \<open>Definitions kept verbatim\<close>




section \<open>The buffer of the multiline notes\<close>






text \<open>
  Two further runs on the buffer: it is not emptied between two files, and a line that holds
  the terminator only leaves it as it is.
\<close>

lemma buffer_crosses_files:
  \<open>map_option (\<lambda>(outs, st). (notes_text st, multiline_notes st))
     (run prov [[''<column name="notes">part one'' @ [newline]], [''x</column>'' @ [newline]]])
   = Some (''part one'' @ [newline] @ ''x'', [])\<close>
  by (simp add: step_defs regex_defs eval_simps)

lemma bare_terminator_keeps_buffer:
  \<open>map_option (\<lambda>(outs, st). (notes_text st, multiline_notes st))
     (run prov [[''<column name="notes">part one'' @ [newline], ''</column>'' @ [newline]]])
   = Some ([], ''part one'' @ [newline])\<close>
  by (simp add: step_defs regex_defs eval_simps)

section \<open>Literal replacement and the sentinels\<close>

lemma str_contains_sublist: "str_contains pat s \<longleftrightarrow> sublist pat s"
  by (induction s) (auto simp: sublist_Cons_right)


lemma replace_first_absent: "\<not> str_contains pat t \<Longrightarrow> replace_first pat rep t = t"
  by (induction t) auto



lemma str_contains_append2: "str_contains pat v \<Longrightarrow> str_contains pat (u @ v)"
  by (simp add: str_contains_sublist sublist_append)


lemma digit_char_is_digit: "is_digit (digit_char k)"
  by (simp add: digit_char_def is_digit_def)

lemma string_of_nat_digits: "c \<in> set (string_of_nat n) \<Longrightarrow> is_digit c"
proof (induction n rule: string_of_nat.induct)
  case (1 n)
  show ?case
  proof (cases "n < 10")
    case True
    then show ?thesis using "1.prems" digit_char_is_digit[of n]
      by (subst (asm) string_of_nat.simps) simp
  next
    case False
    from "1.prems" have "c \<in> set (string_of_nat (n div 10)) \<or> c = digit_char (n mod 10)"
      using False by (subst (asm) string_of_nat.simps) auto
    then show ?thesis using "1.IH" False digit_char_is_digit[of "n mod 10"] by auto
  qed
qed

lemma sentinel_char:
  "c \<in> set (sentinel n) \<Longrightarrow> c \<in> set ''DONOTTRANSLATE'' \<or> is_digit c"
  by (auto simp: sentinel_def dest: string_of_nat_digits)



lemma re_literal_plain:
  "\<forall>c\<in>set s. c \<notin> set ''.^$*+?()[|'' \<and> c \<noteq> bslash \<and> c \<noteq> CHR ''{'' \<Longrightarrow> re_literal s = Some s"
  by (induction s) auto

lemma re_literal_sentinel: "re_literal (sentinel n) = Some (sentinel n)"
  by (rule re_literal_plain) (auto simp: is_digit_def bslash_def dest!: sentinel_char)


lemma replace_all_char:
  "replace_all [a] new s = concat (map (\<lambda>x. if x = a then new else [x]) s)"
  by (induction s) auto

lemma escape_brackets_concat:
  "escape_brackets s =
   concat (map (\<lambda>x. if x = CHR ''['' then [bslash, CHR ''['']
                     else if x = CHR '']'' then [bslash, CHR '']''] else [x]) s)"
  by (induction s) (auto simp: escape_brackets_def replace_all_char bslash_def)

lemma re_literal_escaped:
  assumes "\<forall>x\<in>set c. x \<notin> set ''.^$*+?()|{'' \<and> x \<noteq> bslash"
    and "re_literal rest = Some rest'"
  shows "re_literal (escape_brackets c @ rest) = Some (c @ rest')"
  using assms(1)
proof (induction c)
  case Nil
  then show ?case using assms(2) by (simp add: escape_brackets_concat)
next
  case (Cons x c)
  then have ih: "re_literal (escape_brackets c @ rest) = Some (c @ rest')" by simp
  from Cons.prems have x: "x \<notin> set ''.^$*+?()|{''" "x \<noteq> bslash" by auto
  show ?case
  proof (cases "x = CHR ''['' \<or> x = CHR '']''")
    case True
    then show ?thesis using ih by (auto simp: escape_brackets_concat bslash_def)
  next
    case False
    then show ?thesis using ih x by (auto simp: escape_brackets_concat)
  qed
qed

text \<open>
  Spans that are literal: a content without a backslash and without the characters
  \<^verbatim>\<open>. ^ $ * + ? ( ) | {\<close>, and for a span in braces a content that does not begin like a
  repetition count.
\<close>

lemma literal_bracket_span:
  assumes "\<forall>x\<in>set c. x \<notin> set ''.^$*+?()|{'' \<and> x \<noteq> bslash"
  shows "literal_link (''['' @ c @ '']'')"
proof -
  have "re_literal (escape_brackets (c @ '']'') @ []) = Some ((c @ '']'') @ [])"
    using assms by (intro re_literal_escaped) (auto simp: bslash_def)
  then have "re_literal (escape_brackets (''['' @ c @ '']'')) = Some (''['' @ c @ '']'')"
    by (simp add: escape_brackets_concat bslash_def)
  moreover have "bslash \<notin> set (''['' @ c @ '']'')"
    using assms by (auto simp: bslash_def)
  ultimately show ?thesis by (simp only: literal_link_def simp_thms)
qed

lemma literal_brace_span:
  assumes "\<forall>x\<in>set c. x \<notin> set ''.^$*+?()|{}'' \<and> x \<noteq> bslash"
    and "c = [] \<or> (\<not> is_digit (hd c) \<and> hd c \<noteq> CHR '','')"
  shows "literal_link (''{'' @ c @ ''}'')"
proof -
  have c: "\<forall>x\<in>set c. x \<notin> set ''.^$*+?()|{'' \<and> x \<noteq> bslash" using assms(1) by auto
  have 1: "re_literal (escape_brackets c @ ''}'') = Some (c @ ''}'')"
    using c by (intro re_literal_escaped) (auto simp: bslash_def)
  have 2: "\<not> repeat_spec (escape_brackets c @ ''}'')"
  proof (cases c)
    case Nil
    then show ?thesis by (simp add: repeat_spec_def escape_brackets_concat)
  next
    case (Cons x xs)
    with assms have x: "\<not> is_digit x" "x \<noteq> CHR '',''" "x \<noteq> CHR ''}''" by auto
    show ?thesis
    proof (cases "x = CHR ''['' \<or> x = CHR '']''")
      case True
      then show ?thesis using Cons
        by (auto simp: repeat_spec_def escape_brackets_concat bslash_def is_digit_def)
    next
      case False
      then show ?thesis using Cons x
        by (auto simp: repeat_spec_def escape_brackets_concat)
    qed
  qed
  have "escape_brackets (''{'' @ c @ ''}'') = CHR ''{'' # escape_brackets c @ ''}''"
    by (simp add: escape_brackets_concat)
  then have "re_literal (escape_brackets (''{'' @ c @ ''}'')) = Some (''{'' @ c @ ''}'')"
    using 1 2 by (simp add: bslash_def)
  moreover have "bslash \<notin> set (''{'' @ c @ ''}'')"
    using assms(1) by (auto simp: bslash_def)
  ultimately show ?thesis by (simp only: literal_link_def simp_thms)
qed

section \<open>The spans of a well-formed text\<close>













section \<open>Shielding and restoring\<close>









section \<open>What the provider is sent\<close>





section \<open>A sentinel that does not come back\<close>

text \<open>
  A step of the restoring loop on a text without its sentinel: the text stays, the link goes
  to the missing links, and the error is printed and counted once.
\<close>

lemma restore_missing_step:
  assumes "\<not> str_contains (sentinel n) t" "bslash \<notin> set l"
  shows "restore (l # ls) n t missing st
         = restore ls (n + 1) t (missing @ l)
             ((print_line (''<!-- ERROR: Missing link #'' @ string_of_nat n @ ''. -->'') st)
                \<lparr>num_errors := num_errors st + 1\<rparr>)"
  using assms
  by (simp add: re_sub_once_def re_literal_sentinel expand_template_def replace_first_absent)

text \<open>
  C2.  Notes with ten links; the provider answers with the shielded text from which the
  first sentinel (and the blank after it) is deleted.  The sentinel of link 1 is a prefix of
  the sentinel of link 10: link 1 is put where link 10 belongs, no error is recorded for
  link 1, and the error recorded and the link appended at the end are those of link 10.
\<close>

theorem missing_first_of_ten_links:
  \<open>map_option (\<lambda>(outs, st). (tl (hd outs), num_errors st))
     (run (\<lambda>n text lang. Reply (drop 16 text))
        [[''<column name="notes">{a} {b} {c} {d} {e} {f} {g} {h} {i} {j}</column>'' @ [newline],
          ''<column name="notes_de">TRANSLATE</column>'' @ [newline]]])
   = Some ([''<!-- ERROR: Missing link #10. -->'' @ [newline],
            ''<column name="notes_de">{b} {c} {d} {e} {f} {g} {h} {i} {a}0{j} [AUTOTRANSLATED]</column>''
              @ [newline]], 1)\<close>
  by (simp add: step_defs regex_defs eval_simps)

section \<open>Sorting the attributes\<close>









lemma run_len_le: "run_len desc lt x0 ys \<le> length ys"
  by (induction ys arbitrary: x0) auto









end
